theory Spec2Isabelle
  imports Complex_Main "HOL-Library.Word" "HOL-Library.Sublist" "HOL-Library.Multiset"
begin

section \<open>Strings of the platform\<close>

text \<open>
  A JavaScript string is a sequence of UTF-16 code units; \<open>.length\<close> counts code units and
  \<open>===\<close> compares the sequences. The euro sign U+20AC is one code unit. \<open>js\<close> embeds an
  ASCII literal of the source.
\<close>

type_synonym jsstring = "16 word list"

definition js :: "string \<Rightarrow> jsstring" where
  "js s = map (\<lambda>c. of_nat (of_char c)) s"

definition euro :: "16 word" where
  "euro = 0x20AC"

text \<open>
  \<open>String.prototype.toLowerCase\<close>. On a string of ASCII code units it maps \<open>A\<close>..\<open>Z\<close> to
  \<open>a\<close>..\<open>z\<close> and keeps every other unit. What it does to a string with a unit outside
  ASCII is decided by the Unicode case tables of the platform, which are not part of the
  repository: that part is the parameter \<open>U\<close>, about which nothing is assumed.
\<close>

definition lower_unit :: "16 word \<Rightarrow> 16 word" where
  "lower_unit u = (if 0x41 \<le> u \<and> u \<le> 0x5A then u + 0x20 else u)"

definition is_ascii :: "jsstring \<Rightarrow> bool" where
  "is_ascii s = list_all (\<lambda>u. u < 0x80) s"

definition toLowerCase :: "(jsstring \<Rightarrow> jsstring) \<Rightarrow> jsstring \<Rightarrow> jsstring" where
  "toLowerCase U s = (if is_ascii s then map lower_unit s else U s)"

text \<open>
  \<open>s.includes(t)\<close>: whether \<open>t\<close> occurs in \<open>s\<close> at some position, tried from the left.
\<close>

fun includes_js :: "jsstring \<Rightarrow> jsstring \<Rightarrow> bool" where
  "includes_js [] t = (t = [])"
| "includes_js (c # s) t = (prefix t (c # s) \<or> includes_js s t)"


section \<open>Data model (types.ts)\<close>

record Location =
  lat :: real
  lng :: real
  address :: jsstring

text \<open>
  \<open>Draft\<close> is \<open>Omit<Restaurant, 'id' | 'timestamp'>\<close>, the argument of
  \<open>handleAddRestaurant\<close>; \<open>Restaurant\<close> adds the two fields. The field \<open>id\<close> is named
  \<open>restaurant_id\<close> here. \<open>timestamp\<close> holds \<open>Date.now()\<close>, an integer number of
  milliseconds; \<open>rating\<close> is one of 1..5.
\<close>

record Draft =
  name :: jsstring
  cuisine :: jsstring
  description :: jsstring
  priceRange :: jsstring
  rating :: int
  recommendedBy :: jsstring
  location :: Location

record Restaurant = Draft +
  restaurant_id :: jsstring
  timestamp :: int

text \<open>The four values of the type of \<open>priceRange\<close>, in the order of the declaration.\<close>

definition price_tiers :: "jsstring list" where
  "price_tiers = [[euro], [euro, euro], [euro, euro, euro], [euro, euro, euro, euro]]"

text \<open>
  The tier order as the specification words it, to be compared with the symbol count the
  code sorts by: \<open>\<euro>\<close> is 1, \<open>\<euro>\<euro>\<close> is 2, \<open>\<euro>\<euro>\<euro>\<close> is 3, \<open>\<euro>\<euro>\<euro>\<euro>\<close> is 4 (0 for
  anything else).
\<close>

definition tier_rank :: "jsstring \<Rightarrow> nat" where
  "tier_rank p =
     (if p = [euro] then 1
      else if p = [euro, euro] then 2
      else if p = [euro, euro, euro] then 3
      else if p = [euro, euro, euro, euro] then 4
      else 0)"


section \<open>The filter and sort pipeline (App.tsx, filteredAndSortedRestaurants)\<close>

definition matchesSearch :: "(jsstring \<Rightarrow> jsstring) \<Rightarrow> Restaurant \<Rightarrow> jsstring \<Rightarrow> bool" where
  "matchesSearch U restaurant searchTerm =
     (includes_js (toLowerCase U (name restaurant)) (toLowerCase U searchTerm) \<or>
      includes_js (toLowerCase U (description restaurant)) (toLowerCase U searchTerm))"

definition matchesCuisine :: "Restaurant \<Rightarrow> jsstring \<Rightarrow> bool" where
  "matchesCuisine restaurant selectedCuisine =
     (selectedCuisine = js ''All'' \<or> cuisine restaurant = selectedCuisine)"

definition matchesPrice :: "Restaurant \<Rightarrow> jsstring \<Rightarrow> bool" where
  "matchesPrice restaurant priceFilter =
     (priceFilter = js ''all'' \<or> priceRange restaurant = priceFilter)"

text \<open>The comparator handed to \<open>sort\<close>: the \<open>switch\<close> on \<open>sortBy\<close>.\<close>

definition compare_by :: "jsstring \<Rightarrow> Restaurant \<Rightarrow> Restaurant \<Rightarrow> int" where
  "compare_by sortBy a b =
     (if sortBy = js ''newest'' then timestamp b - timestamp a
      else if sortBy = js ''oldest'' then timestamp a - timestamp b
      else if sortBy = js ''rating'' then rating b - rating a
      else if sortBy = js ''price-asc'' then
        int (length (priceRange a)) - int (length (priceRange b))
      else if sortBy = js ''price-desc'' then
        int (length (priceRange b)) - int (length (priceRange a))
      else 0)"

text \<open>
  \<open>Array.prototype.sort\<close> with a comparator is a stable sort: an element goes before the
  first element it does not compare greater than, so elements that compare equal keep
  their order.
\<close>

fun insert_cmp :: "('a \<Rightarrow> 'a \<Rightarrow> int) \<Rightarrow> 'a \<Rightarrow> 'a list \<Rightarrow> 'a list" where
  "insert_cmp cmp x [] = [x]"
| "insert_cmp cmp x (y # ys) =
     (if cmp x y \<le> 0 then x # y # ys else y # insert_cmp cmp x ys)"

definition sort_cmp :: "('a \<Rightarrow> 'a \<Rightarrow> int) \<Rightarrow> 'a list \<Rightarrow> 'a list" where
  "sort_cmp cmp xs = foldr (insert_cmp cmp) xs []"

definition filteredAndSortedRestaurants ::
  "(jsstring \<Rightarrow> jsstring) \<Rightarrow> Restaurant list \<Rightarrow> jsstring \<Rightarrow> jsstring \<Rightarrow> jsstring \<Rightarrow> jsstring
     \<Rightarrow> Restaurant list" where
  "filteredAndSortedRestaurants U restaurants searchTerm selectedCuisine priceFilter sortBy =
     sort_cmp (compare_by sortBy)
       (filter (\<lambda>restaurant.
          matchesSearch U restaurant searchTerm \<and>
          matchesCuisine restaurant selectedCuisine \<and>
          matchesPrice restaurant priceFilter) restaurants)"

text \<open>The same pipeline with the cuisine and the price predicate taken out.\<close>

definition searchedAndSortedRestaurants ::
  "(jsstring \<Rightarrow> jsstring) \<Rightarrow> Restaurant list \<Rightarrow> jsstring \<Rightarrow> jsstring \<Rightarrow> Restaurant list" where
  "searchedAndSortedRestaurants U restaurants searchTerm sortBy =
     sort_cmp (compare_by sortBy)
       (filter (\<lambda>restaurant. matchesSearch U restaurant searchTerm) restaurants)"


section \<open>Application state (App.tsx, the useState slots)\<close>

record AppState =
  restaurants :: "Restaurant list"
  searchTerm :: jsstring
  selectedCuisine :: jsstring
  priceFilter :: jsstring
  sortBy :: jsstring
  selectedRestaurant :: "jsstring option"
  isLoading :: bool
  error :: "jsstring option"

definition initial_state :: AppState where
  "initial_state =
     \<lparr>restaurants = [], searchTerm = [], selectedCuisine = js ''All'',
      priceFilter = js ''all'', sortBy = js ''newest'', selectedRestaurant = None,
      isLoading = True, error = None\<rparr>"

text \<open>
  The two handlers never read a state slot; they only call setters. A run of a handler is
  therefore the list of its setter calls, in order, and the state after it is the state
  before with the calls applied in that order.
\<close>

datatype update =
    SetRestaurants "Restaurant list"
  | SetError "jsstring option"
  | SetIsLoading bool

fun apply_update :: "AppState \<Rightarrow> update \<Rightarrow> AppState" where
  "apply_update st (SetRestaurants data) = st\<lparr>restaurants := data\<rparr>"
| "apply_update st (SetError e) = st\<lparr>error := e\<rparr>"
| "apply_update st (SetIsLoading b) = st\<lparr>isLoading := b\<rparr>"

definition commit :: "AppState \<Rightarrow> update list \<Rightarrow> AppState" where
  "commit st us = foldl apply_update st us"

fun sets_restaurants :: "update \<Rightarrow> bool" where
  "sets_restaurants (SetRestaurants data) = True"
| "sets_restaurants (SetError e) = False"
| "sets_restaurants (SetIsLoading b) = False"


section \<open>Network and local storage\<close>

text \<open>
  What \<open>await fetch(...)\<close> gives: the promise rejects (network failure), or it resolves to
  a response with its \<open>ok\<close> flag and the result of \<open>response.json()\<close> (\<open>None\<close> when the
  body does not parse). The state slot has type \<open>Restaurant[]\<close>, so a body that parses
  is a collection.
\<close>

datatype 'a response = Response (ok: bool) (json: "'a option")

datatype 'a fetch_result = Rejected | Resolved "'a response"

type_synonym storage = "jsstring \<rightharpoonup> jsstring"

definition getItem :: "storage \<Rightarrow> jsstring \<Rightarrow> jsstring option" where
  "getItem ls k = ls k"

definition setItem :: "storage \<Rightarrow> jsstring \<Rightarrow> jsstring \<Rightarrow> storage" where
  "setItem ls k v = ls(k \<mapsto> v)"

definition storage_key :: jsstring where
  "storage_key = js ''restaurants''"

text \<open>
  \<open>JSON.stringify\<close> and \<open>JSON.parse\<close> on collections. The text of the empty array is
  \<open>[]\<close>, and that text parses to the empty array. The text of a non-empty collection
  (number formatting, escapes) and the parse of any other text are the platform's and are
  the parameters \<open>enc\<close> and \<open>dec\<close>; \<open>None\<close> from the parser is a thrown SyntaxError.
\<close>

definition JSON_stringify :: "(Restaurant list \<Rightarrow> jsstring) \<Rightarrow> Restaurant list \<Rightarrow> jsstring" where
  "JSON_stringify enc xs = (if xs = [] then js ''[]'' else enc xs)"

definition JSON_parse ::
  "(jsstring \<Rightarrow> Restaurant list option) \<Rightarrow> jsstring \<Rightarrow> Restaurant list option" where
  "JSON_parse dec txt = (if txt = js ''[]'' then Some [] else dec txt)"


section \<open>Retrieval (App.tsx, fetchRestaurants)\<close>

definition load_failed_msg :: jsstring where
  "load_failed_msg = js ''Failed to load restaurants. Please try again later.''"

text \<open>
  One inner \<open>try\<close> block: the request, the \<open>ok\<close> check and \<open>response.json()\<close>. \<open>None\<close>
  is control reaching the \<open>catch\<close>.
\<close>

definition try_get :: "Restaurant list fetch_result \<Rightarrow> Restaurant list option" where
  "try_get r =
     (case r of
        Rejected \<Rightarrow> None
      | Resolved response \<Rightarrow> (if \<not> ok response then None else json response))"

datatype completion = Returned | Threw

text \<open>
  \<open>primary\<close> and \<open>fallback\<close> are what the two requests give (the second is only made when
  the first block fails); \<open>ls\<close> is local storage when the outer \<open>catch\<close> runs. An empty
  stored string is falsy, like \<open>null\<close>. A stored text that does not parse makes
  \<open>JSON.parse\<close> throw inside the \<open>catch\<close>: the \<open>finally\<close> still runs, and the call
  ends by throwing.
\<close>

definition fetchRestaurants ::
  "(jsstring \<Rightarrow> Restaurant list option) \<Rightarrow> storage \<Rightarrow>
     Restaurant list fetch_result \<Rightarrow> Restaurant list fetch_result \<Rightarrow> update list \<times> completion" where
  "fetchRestaurants dec ls primary fallback =
     (case try_get primary of
        Some data \<Rightarrow>
          ([SetIsLoading True, SetRestaurants data, SetError None, SetIsLoading False], Returned)
      | None \<Rightarrow>
         (case try_get fallback of
            Some data \<Rightarrow>
              ([SetIsLoading True, SetRestaurants data, SetError None, SetIsLoading False],
               Returned)
          | None \<Rightarrow>
             (case getItem ls storage_key of
                None \<Rightarrow>
                  ([SetIsLoading True, SetError (Some load_failed_msg), SetIsLoading False],
                   Returned)
              | Some savedData \<Rightarrow>
                  if savedData = [] then
                    ([SetIsLoading True, SetError (Some load_failed_msg), SetIsLoading False],
                     Returned)
                  else
                    (case JSON_parse dec savedData of
                       None \<Rightarrow>
                         ([SetIsLoading True, SetError (Some load_failed_msg),
                           SetIsLoading False], Threw)
                     | Some cached \<Rightarrow>
                         ([SetIsLoading True, SetError (Some load_failed_msg),
                           SetRestaurants cached, SetError None, SetIsLoading False],
                          Returned)))))"


section \<open>Submission (App.tsx, handleAddRestaurant)\<close>

definition add_failed_msg :: jsstring where
  "add_failed_msg = js ''Failed to add restaurant. Please try again.''"

definition restaurantData :: "Draft \<Rightarrow> jsstring \<Rightarrow> int \<Rightarrow> Restaurant" where
  "restaurantData newRestaurant uuid now =
     Draft.extend newRestaurant (Restaurant.fields uuid now)"

text \<open>
  \<open>post\<close> is the server's answer to the POST of a record; \<open>uuid\<close> and \<open>now\<close> are what
  \<open>crypto.randomUUID()\<close> and \<open>Date.now()\<close> give. A refresh that throws lands in the
  handler's \<open>catch\<close>, like a failed POST.
\<close>

definition handleAddRestaurant ::
  "(jsstring \<Rightarrow> Restaurant list option) \<Rightarrow> storage \<Rightarrow> (Restaurant \<Rightarrow> unit fetch_result) \<Rightarrow>
     Restaurant list fetch_result \<Rightarrow> Restaurant list fetch_result \<Rightarrow>
     Draft \<Rightarrow> jsstring \<Rightarrow> int \<Rightarrow> update list" where
  "handleAddRestaurant dec ls post primary fallback newRestaurant uuid now =
     (case post (restaurantData newRestaurant uuid now) of
        Rejected \<Rightarrow> [SetError (Some add_failed_msg)]
      | Resolved response \<Rightarrow>
          if \<not> ok response then [SetError (Some add_failed_msg)]
          else
            (case fetchRestaurants dec ls primary fallback of
               (us, Returned) \<Rightarrow> us @ [SetError None]
             | (us, Threw) \<Rightarrow> us @ [SetError (Some add_failed_msg)]))"

section \<open>A session: mount, the persist effect, renders\<close>

text \<open>
  The second effect of the component, with dependency \<open>[restaurants]\<close>: it runs after the
  first render and after every render in which \<open>setRestaurants\<close> was called, and
  overwrites the one storage slot with the serialised collection.
\<close>

definition persist_effect :: "(Restaurant list \<Rightarrow> jsstring) \<Rightarrow> AppState \<Rightarrow> storage \<Rightarrow> storage" where
  "persist_effect enc st ls = setItem ls storage_key (JSON_stringify enc (restaurants st))"

definition render ::
  "(Restaurant list \<Rightarrow> jsstring) \<Rightarrow> update list \<Rightarrow> AppState \<times> storage \<Rightarrow> AppState \<times> storage" where
  "render enc us cfg =
     (let st = commit (fst cfg) us
      in (st, if list_ex sets_restaurants us then persist_effect enc st (snd cfg) else snd cfg))"

text \<open>
  Mounting runs the effects in the order of their declaration. The first one calls
  \<open>fetchRestaurants\<close>, which runs up to its first \<open>await\<close> (it sets \<open>isLoading\<close>, which
  is already true, and issues the request); the second one persists the initial
  collection. Only then can the request resolve. \<open>ls\<close> is the storage a previous session
  left behind.
\<close>

definition mount :: "(Restaurant list \<Rightarrow> jsstring) \<Rightarrow> storage \<Rightarrow> AppState \<times> storage" where
  "mount enc ls = (initial_state, persist_effect enc initial_state ls)"

definition app_start ::
  "(Restaurant list \<Rightarrow> jsstring) \<Rightarrow> (jsstring \<Rightarrow> Restaurant list option) \<Rightarrow> storage \<Rightarrow>
     Restaurant list fetch_result \<Rightarrow> Restaurant list fetch_result \<Rightarrow> AppState \<times> storage" where
  "app_start enc dec ls primary fallback =
     (let cfg = mount enc ls
      in render enc (fst (fetchRestaurants dec (snd cfg) primary fallback)) cfg)"

text \<open>One submission of the form, with everything the environment answers to it.\<close>

record submission =
  sub_draft :: Draft
  sub_uuid :: jsstring
  sub_now :: int
  sub_post :: "Restaurant \<Rightarrow> unit fetch_result"
  sub_primary :: "Restaurant list fetch_result"
  sub_fallback :: "Restaurant list fetch_result"

definition submit ::
  "(Restaurant list \<Rightarrow> jsstring) \<Rightarrow> (jsstring \<Rightarrow> Restaurant list option) \<Rightarrow>
     AppState \<times> storage \<Rightarrow> submission \<Rightarrow> AppState \<times> storage" where
  "submit enc dec cfg s =
     render enc
       (handleAddRestaurant dec (snd cfg) (sub_post s) (sub_primary s) (sub_fallback s)
          (sub_draft s) (sub_uuid s) (sub_now s))
       cfg"

text \<open>A session: the start, then submissions one after the other.\<close>

definition session ::
  "(Restaurant list \<Rightarrow> jsstring) \<Rightarrow> (jsstring \<Rightarrow> Restaurant list option) \<Rightarrow> storage \<Rightarrow>
     Restaurant list fetch_result \<Rightarrow> Restaurant list fetch_result \<Rightarrow> submission list \<Rightarrow>
     AppState \<times> storage" where
  "session enc dec ls primary fallback subs =
     foldl (submit enc dec) (app_start enc dec ls primary fallback) subs"

text \<open>
  Two predicates on a configuration (state and storage) used to reason about sessions:
  the slot holds the text of the collection in memory, and two configurations agree on
  everything the program reads.
\<close>

definition slot_in_sync :: "(Restaurant list \<Rightarrow> jsstring) \<Rightarrow> AppState \<times> storage \<Rightarrow> bool" where
  "slot_in_sync enc cfg =
     (getItem (snd cfg) storage_key = Some (JSON_stringify enc (restaurants (fst cfg))))"

definition same_view :: "AppState \<times> storage \<Rightarrow> AppState \<times> storage \<Rightarrow> bool" where
  "same_view cfg cfg' =
     (fst cfg = fst cfg' \<and> getItem (snd cfg) storage_key = getItem (snd cfg') storage_key)"


section \<open>Sample values\<close>

text \<open>Concrete records, servers and storages on which the conditional statements are run.\<close>

definition demo_location :: Location where
  "demo_location = \<lparr>lat = 0, lng = 0, address = []\<rparr>"

definition demo_restaurant :: "jsstring \<Rightarrow> jsstring \<Rightarrow> int \<Rightarrow> Restaurant" where
  "demo_restaurant n p t =
     \<lparr>name = n, cuisine = js ''Thai'', description = js ''Vegan curry'', priceRange = p,
      rating = 4, recommendedBy = js ''Ann'', location = demo_location,
      restaurant_id = n, timestamp = t\<rparr>"

definition demo_collection :: "Restaurant list" where
  "demo_collection =
     [demo_restaurant (js ''A'') [euro, euro, euro] 1, demo_restaurant (js ''B'') [euro] 2,
      demo_restaurant (js ''C'') [euro, euro] 3]"

definition demo_draft :: Draft where
  "demo_draft =
     \<lparr>name = js ''Tofu House'', cuisine = js ''Other'', description = js ''Silken'',
      priceRange = [euro], rating = 5, recommendedBy = js ''Bo'', location = demo_location\<rparr>"

definition server_refuses :: "Restaurant \<Rightarrow> unit fetch_result" where
  "server_refuses r = Resolved (Response False None)"

definition server_accepts :: "Restaurant \<Rightarrow> unit fetch_result" where
  "server_accepts r = Resolved (Response True None)"

text \<open>
  A storage left behind by an earlier session, with a parser that reads its text as a
  one-element collection.
\<close>

definition old_snapshot :: storage where
  "old_snapshot = [storage_key \<mapsto> js ''[{...}]'']"

definition old_parser :: "jsstring \<Rightarrow> Restaurant list option" where
  "old_parser txt = Some [demo_restaurant (js ''A'') [euro] 1]"


section \<open>The sort is a stable rearrangement\<close>

lemma mset_insert_cmp: "mset (insert_cmp cmp x ys) = add_mset x (mset ys)"
  by (induction ys) simp_all

lemma mset_sort_cmp: "mset (sort_cmp cmp xs) = mset xs"
  by (induction xs) (simp_all add: sort_cmp_def mset_insert_cmp)

lemma set_insert_cmp: "set (insert_cmp cmp x ys) = insert x (set ys)"
  by (induction ys) auto

lemma set_sort_cmp: "set (sort_cmp cmp xs) = set xs"
  by (induction xs) (simp_all add: sort_cmp_def set_insert_cmp)

text \<open>
  When the comparator is the difference of an integer key, inserting into a list ordered
  by the key keeps it ordered.
\<close>

lemma sorted_insert_cmp:
  fixes k :: "'a \<Rightarrow> int"
  assumes key: "\<And>a b. (cmp a b \<le> 0) = (k a \<le> k b)"
    and ys: "sorted_wrt (\<lambda>a b. k a \<le> k b) ys"
  shows "sorted_wrt (\<lambda>a b. k a \<le> k b) (insert_cmp cmp x ys)"
  using ys
proof (induction ys)
  case Nil
  then show ?case by simp
next
  case (Cons y ys)
  show ?case
  proof (cases "cmp x y \<le> 0")
    case True
    then have "k x \<le> k y" using key by simp
    with Cons.prems show ?thesis using True by auto
  next
    case False
    then have "k y \<le> k x" using key [of x y] by simp
    with Cons show ?thesis using False by (auto simp: set_insert_cmp)
  qed
qed

lemma sorted_sort_cmp:
  fixes k :: "'a \<Rightarrow> int"
  assumes key: "\<And>a b. (cmp a b \<le> 0) = (k a \<le> k b)"
  shows "sorted_wrt (\<lambda>a b. k a \<le> k b) (sort_cmp cmp xs)"
proof (induction xs)
  case Nil
  show ?case by (simp add: sort_cmp_def)
next
  case (Cons x xs)
  have "sort_cmp cmp (x # xs) = insert_cmp cmp x (sort_cmp cmp xs)"
    by (simp add: sort_cmp_def)
  with Cons show ?case using sorted_insert_cmp [of cmp k] key by simp
qed

text \<open>A comparator that always answers 0 (an unrecognised sort key) leaves the order alone.\<close>

lemma insert_cmp_zero: "cmp x = (\<lambda>y. 0) \<Longrightarrow> insert_cmp cmp x ys = x # ys"
  by (cases ys) simp_all

lemma sort_cmp_zero: "cmp = (\<lambda>x y. 0) \<Longrightarrow> sort_cmp cmp xs = xs"
  by (induction xs) (simp_all add: sort_cmp_def insert_cmp_zero)

lemma compare_newest: "compare_by (js ''newest'') a b = timestamp b - timestamp a"
  by (simp add: compare_by_def)

lemma compare_oldest: "compare_by (js ''oldest'') a b = timestamp a - timestamp b"
  by (simp add: compare_by_def js_def)

lemma compare_price_asc:
  "compare_by (js ''price-asc'') a b = int (length (priceRange a)) - int (length (priceRange b))"
  by (simp add: compare_by_def js_def)

lemma compare_price_desc:
  "compare_by (js ''price-desc'') a b = int (length (priceRange b)) - int (length (priceRange a))"
  by (simp add: compare_by_def js_def)

text \<open>
  C4. Whatever the collection and the three filters, sorting by \<open>newest\<close> gives a
  permutation of the filtered elements with timestamps that never increase, and sorting
  by \<open>oldest\<close> a permutation with timestamps that never decrease.
\<close>

theorem newest_oldest_sorted_permutation:
  "mset (filteredAndSortedRestaurants U C s c p (js ''newest'')) =
     mset (filter (\<lambda>r. matchesSearch U r s \<and> matchesCuisine r c \<and> matchesPrice r p) C) \<and>
   sorted_wrt (\<lambda>a b. timestamp a \<ge> timestamp b)
     (filteredAndSortedRestaurants U C s c p (js ''newest'')) \<and>
   mset (filteredAndSortedRestaurants U C s c p (js ''oldest'')) =
     mset (filter (\<lambda>r. matchesSearch U r s \<and> matchesCuisine r c \<and> matchesPrice r p) C) \<and>
   sorted_wrt (\<lambda>a b. timestamp a \<le> timestamp b)
     (filteredAndSortedRestaurants U C s c p (js ''oldest''))"
proof -
  have n: "sorted_wrt (\<lambda>a b. - timestamp a \<le> - timestamp b)
             (sort_cmp (compare_by (js ''newest'')) xs)" for xs
    by (rule sorted_sort_cmp) (simp add: compare_newest)
  have o: "sorted_wrt (\<lambda>a b. timestamp a \<le> timestamp b)
             (sort_cmp (compare_by (js ''oldest'')) xs)" for xs
    by (rule sorted_sort_cmp) (simp add: compare_oldest)
  show ?thesis
    using n o by (simp add: filteredAndSortedRestaurants_def mset_sort_cmp)
qed


section \<open>Search\<close>

lemma includes_js_sublist: "includes_js s t = sublist t s"
  by (induction s) (simp_all add: sublist_Cons_right)

lemma includes_js_occurs: "includes_js s t = (\<exists>pre post. s = pre @ t @ post)"
  by (simp add: includes_js_sublist sublist_def)

lemma includes_js_empty: "includes_js s []"
  by (simp add: includes_js_sublist)

lemma toLowerCase_empty: "toLowerCase U [] = []"
  by (simp add: toLowerCase_def is_ascii_def)

lemma matchesSearch_empty: "matchesSearch U r []"
  by (simp add: matchesSearch_def toLowerCase_empty includes_js_empty)

lemma lower_tofu_house: "toLowerCase U (js ''Tofu House'') = js ''tofu house''"
  by (simp add: toLowerCase_def is_ascii_def js_def lower_unit_def)

lemma lower_tofu: "toLowerCase U (js ''tofu'') = js ''tofu''"
  by (simp add: toLowerCase_def is_ascii_def js_def lower_unit_def)

text \<open>
  C6. A restaurant passes the search predicate exactly when the lowercased term occurs
  in its lowercased name or in its lowercased description. The empty term matches every
  restaurant; a restaurant named \<open>Tofu House\<close> matches \<open>tofu\<close> (and \<open>TOFU\<close>), and
  so does one with that description alone.
\<close>

theorem search_is_substring_of_name_or_description:
  "(matchesSearch U r q \<longleftrightarrow>
      (\<exists>pre post. toLowerCase U (name r) = pre @ toLowerCase U q @ post) \<or>
      (\<exists>pre post. toLowerCase U (description r) = pre @ toLowerCase U q @ post)) \<and>
   matchesSearch U r [] \<and>
   matchesSearch U (r\<lparr>name := js ''Tofu House''\<rparr>) (js ''tofu'') \<and>
   matchesSearch U (r\<lparr>name := js ''Tofu House''\<rparr>) (js ''TOFU'') \<and>
   matchesSearch U (r\<lparr>description := js ''Tofu House''\<rparr>) (js ''tofu'')"
proof -
  have k: "includes_js (js ''tofu house'') (js ''tofu'')"
    by (simp add: js_def)
  have u: "toLowerCase U (js ''TOFU'') = js ''tofu''"
    by (simp add: toLowerCase_def is_ascii_def js_def lower_unit_def)
  show ?thesis
    using k by (simp add: matchesSearch_def includes_js_occurs [symmetric] toLowerCase_empty
        includes_js_empty lower_tofu_house lower_tofu u)
qed

text \<open>
  C7. With the cuisine filter \<open>All\<close> and the price filter \<open>all\<close> the pipeline gives
  what it gives with the two predicates removed, for every collection, term and sort key;
  each of the two predicates holds of every restaurant.
\<close>

theorem sentinels_are_identity_filters:
  "filteredAndSortedRestaurants U C s (js ''All'') (js ''all'') k =
     searchedAndSortedRestaurants U C s k \<and>
   matchesCuisine r (js ''All'') \<and> matchesPrice r (js ''all'')"
  by (simp add: filteredAndSortedRestaurants_def searchedAndSortedRestaurants_def
      matchesCuisine_def matchesPrice_def)


section \<open>Price tiers\<close>

lemma tier_rank_length: "p \<in> set price_tiers \<Longrightarrow> tier_rank p = length p"
  by (auto simp: price_tiers_def tier_rank_def)

lemma sorted_wrt_on_set:
  assumes "sorted_wrt P xs" and "\<And>a b. a \<in> set xs \<Longrightarrow> b \<in> set xs \<Longrightarrow> P a b \<Longrightarrow> Q a b"
  shows "sorted_wrt Q xs"
  using assms by (induction xs) auto

text \<open>
  C5. When every price range of the collection is one of the four tier symbols, sorting
  by \<open>price-asc\<close> gives a sequence that never decreases in the tier order 1, 2, 3, 4 of
  the specification, and \<open>price-desc\<close> one that never increases; on those symbols the
  tier is the length of the string.
\<close>

theorem price_sorted_by_tier:
  assumes tiers: "\<forall>r \<in> set C. priceRange r \<in> set price_tiers"
  shows "sorted_wrt (\<lambda>a b. tier_rank (priceRange a) \<le> tier_rank (priceRange b))
           (filteredAndSortedRestaurants U C s c p (js ''price-asc'')) \<and>
         sorted_wrt (\<lambda>a b. tier_rank (priceRange a) \<ge> tier_rank (priceRange b))
           (filteredAndSortedRestaurants U C s c p (js ''price-desc'')) \<and>
         map tier_rank price_tiers = [1, 2, 3, 4] \<and>
         map length price_tiers = [1, 2, 3, 4] \<and>
         (\<forall>r \<in> set C. tier_rank (priceRange r) = length (priceRange r))"
proof -
  let ?F = "filter (\<lambda>r. matchesSearch U r s \<and> matchesCuisine r c \<and> matchesPrice r p) C"
  have rank: "tier_rank (priceRange r) = length (priceRange r)" if "r \<in> set C" for r
    using that tiers tier_rank_length by blast
  have asc: "sorted_wrt (\<lambda>a b. int (length (priceRange a)) \<le> int (length (priceRange b)))
               (sort_cmp (compare_by (js ''price-asc'')) ?F)"
    by (rule sorted_sort_cmp) (simp add: compare_price_asc)
  have desc: "sorted_wrt (\<lambda>a b. - int (length (priceRange a)) \<le> - int (length (priceRange b)))
               (sort_cmp (compare_by (js ''price-desc'')) ?F)"
    by (rule sorted_sort_cmp) (simp add: compare_price_desc)
  have a: "sorted_wrt (\<lambda>a b. tier_rank (priceRange a) \<le> tier_rank (priceRange b))
             (sort_cmp (compare_by (js ''price-asc'')) ?F)"
    by (rule sorted_wrt_on_set [OF asc]) (simp add: set_sort_cmp rank)
  have d: "sorted_wrt (\<lambda>a b. tier_rank (priceRange a) \<ge> tier_rank (priceRange b))
             (sort_cmp (compare_by (js ''price-desc'')) ?F)"
    by (rule sorted_wrt_on_set [OF desc]) (simp add: set_sort_cmp rank)
  have m: "map tier_rank price_tiers = [1, 2, 3, 4]" "map length price_tiers = [1, 2, 3, 4]"
    by (simp_all add: price_tiers_def tier_rank_def)
  show ?thesis
    using a d m rank by (simp add: filteredAndSortedRestaurants_def)
qed

theorem price_sorted_by_tier_witness:
  "list_all (\<lambda>r. priceRange r \<in> set price_tiers) demo_collection \<and>
   map priceRange (filteredAndSortedRestaurants (\<lambda>x. x) demo_collection
         [] (js ''All'') (js ''all'') (js ''price-asc'')) =
     [[euro], [euro, euro], [euro, euro, euro]] \<and>
   sorted_wrt (\<lambda>a b. tier_rank (priceRange a) \<le> tier_rank (priceRange b))
     (filteredAndSortedRestaurants (\<lambda>x. x) demo_collection
         [] (js ''All'') (js ''all'') (js ''price-asc'')) \<and>
   map priceRange (filteredAndSortedRestaurants (\<lambda>x. x) demo_collection
         [] (js ''All'') (js ''all'') (js ''price-desc'')) =
     [[euro, euro, euro], [euro, euro], [euro]] \<and>
   sorted_wrt (\<lambda>a b. tier_rank (priceRange a) \<ge> tier_rank (priceRange b))
     (filteredAndSortedRestaurants (\<lambda>x. x) demo_collection
         [] (js ''All'') (js ''all'') (js ''price-desc''))"
proof -
  have h: "\<forall>r \<in> set demo_collection. priceRange r \<in> set price_tiers"
    by (simp add: demo_collection_def demo_restaurant_def price_tiers_def)
  then have l: "list_all (\<lambda>r. priceRange r \<in> set price_tiers) demo_collection"
    by (simp add: list_all_iff)
  have a: "map priceRange (filteredAndSortedRestaurants (\<lambda>x. x) demo_collection
         [] (js ''All'') (js ''all'') (js ''price-asc'')) =
     [[euro], [euro, euro], [euro, euro, euro]]"
    by (simp add: filteredAndSortedRestaurants_def matchesSearch_empty matchesCuisine_def
        matchesPrice_def sort_cmp_def compare_price_asc demo_collection_def demo_restaurant_def)
  have d: "map priceRange (filteredAndSortedRestaurants (\<lambda>x. x) demo_collection
         [] (js ''All'') (js ''all'') (js ''price-desc'')) =
     [[euro, euro, euro], [euro, euro], [euro]]"
    by (simp add: filteredAndSortedRestaurants_def matchesSearch_empty matchesCuisine_def
        matchesPrice_def sort_cmp_def compare_price_desc demo_collection_def demo_restaurant_def)
  show ?thesis
    using l a d price_sorted_by_tier [OF h, of "\<lambda>x. x" "[]" "js ''All''" "js ''all''"]
    by blast
qed


section \<open>Retrieval and submission\<close>

lemma commit_Nil: "commit st [] = st"
  by (simp add: commit_def)

lemma commit_Cons: "commit st (u # us) = commit (apply_update st u) us"
  by (simp add: commit_def)

lemma commit_append: "commit st (us @ vs) = commit (commit st us) vs"
  by (simp add: commit_def)

lemmas commit_simps = commit_Nil commit_Cons commit_append

text \<open>
  A request block fails when the request is rejected, the response is not ok, or the body
  does not parse; otherwise it yields the parsed body.
\<close>

lemma try_get_None_iff:
  "try_get r = None \<longleftrightarrow>
     r = Rejected \<or> (\<exists>response. r = Resolved response \<and> (\<not> ok response \<or> json response = None))"
  by (cases r) (auto simp: try_get_def)

lemma try_get_Some_iff:
  "try_get r = Some data \<longleftrightarrow> r = Resolved (Response True (Some data))"
proof (cases r)
  case Rejected
  then show ?thesis by (simp add: try_get_def)
next
  case (Resolved response)
  then show ?thesis by (cases response) (auto simp: try_get_def)
qed

text \<open>
  C1. When the primary request fails, the fallback request fails and the storage slot is
  absent (or holds the empty string), the collection in memory after the refresh is the
  one before it and the error slot holds the retrieval failure message.
\<close>

theorem refresh_all_sources_fail:
  assumes "try_get primary = None" and "try_get fallback = None"
    and "getItem ls storage_key = None \<or> getItem ls storage_key = Some []"
  shows "restaurants (commit st (fst (fetchRestaurants dec ls primary fallback))) = restaurants st \<and>
         error (commit st (fst (fetchRestaurants dec ls primary fallback))) =
           Some (js ''Failed to load restaurants. Please try again later.'') \<and>
         snd (fetchRestaurants dec ls primary fallback) = Returned"
  using assms by (auto simp: fetchRestaurants_def commit_simps load_failed_msg_def)

theorem refresh_all_sources_fail_witness:
  "try_get Rejected = None \<and> try_get (Resolved (Response False (Some []))) = None \<and>
   getItem Map.empty storage_key = None \<and>
   restaurants (commit (initial_state\<lparr>restaurants := [demo_restaurant (js ''A'') [euro] 1]\<rparr>)
       (fst (fetchRestaurants (\<lambda>t. None) Map.empty Rejected (Resolved (Response False (Some []))))))
     = [demo_restaurant (js ''A'') [euro] 1] \<and>
   error (commit (initial_state\<lparr>restaurants := [demo_restaurant (js ''A'') [euro] 1]\<rparr>)
       (fst (fetchRestaurants (\<lambda>t. None) Map.empty Rejected (Resolved (Response False (Some []))))))
     = Some (js ''Failed to load restaurants. Please try again later.'')"
proof -
  have p: "try_get Rejected = None" by (simp add: try_get_def)
  have f: "try_get (Resolved (Response False (Some []))) = None" by (simp add: try_get_def)
  have g: "getItem Map.empty storage_key = None" by (simp add: getItem_def)
  from g have g': "getItem Map.empty storage_key = None \<or> getItem Map.empty storage_key = Some []"
    by simp
  show ?thesis
    using p f g refresh_all_sources_fail [OF p f g',
        where st = "initial_state\<lparr>restaurants := [demo_restaurant (js ''A'') [euro] 1]\<rparr>"
          and dec = "\<lambda>t. None"]
    by simp
qed

lemma js_brackets_nonempty: "js ''[]'' \<noteq> []"
  by (simp add: js_def)

text \<open>
  C2. When both requests fail and the storage slot holds a text that parses to a
  collection, the collection in memory after the refresh is that collection and the error
  slot ends up cleared.
\<close>

theorem refresh_adopts_cached_collection:
  assumes "try_get primary = None" and "try_get fallback = None"
    and "getItem ls storage_key = Some savedData" and "savedData \<noteq> []"
    and "JSON_parse dec savedData = Some cached"
  shows "restaurants (commit st (fst (fetchRestaurants dec ls primary fallback))) = cached \<and>
         error (commit st (fst (fetchRestaurants dec ls primary fallback))) = None \<and>
         snd (fetchRestaurants dec ls primary fallback) = Returned"
  using assms by (simp add: fetchRestaurants_def commit_simps)

theorem refresh_adopts_cached_collection_witness:
  "try_get Rejected = None \<and>
   getItem [storage_key \<mapsto> js ''[]''] storage_key = Some (js ''[]'') \<and> js ''[]'' \<noteq> [] \<and>
   JSON_parse (\<lambda>t. None) (js ''[]'') = Some [] \<and>
   restaurants (commit (initial_state\<lparr>restaurants := [demo_restaurant (js ''A'') [euro] 1]\<rparr>)
       (fst (fetchRestaurants (\<lambda>t. None) [storage_key \<mapsto> js ''[]''] Rejected Rejected))) = [] \<and>
   error (commit (initial_state\<lparr>restaurants := [demo_restaurant (js ''A'') [euro] 1]\<rparr>)
       (fst (fetchRestaurants (\<lambda>t. None) [storage_key \<mapsto> js ''[]''] Rejected Rejected))) = None"
proof -
  have p: "try_get Rejected = None" by (simp add: try_get_def)
  have g: "getItem [storage_key \<mapsto> js ''[]''] storage_key = Some (js ''[]'')"
    by (simp add: getItem_def)
  have j: "JSON_parse (\<lambda>t. None) (js ''[]'') = Some []" by (simp add: JSON_parse_def)
  show ?thesis
    using p g j js_brackets_nonempty
      refresh_adopts_cached_collection [OF p p g js_brackets_nonempty j,
        where st = "initial_state\<lparr>restaurants := [demo_restaurant (js ''A'') [euro] 1]\<rparr>"]
    by simp
qed

text \<open>
  C3. When the primary request fails and the fallback request succeeds with a collection,
  the collection in memory after the refresh is that payload, the error slot is cleared,
  and the outcome is the same whatever the storage holds and whatever the parser does:
  the cache is not consulted.
\<close>

theorem refresh_adopts_fallback_payload:
  assumes "try_get primary = None"
  shows "restaurants (commit st (fst (fetchRestaurants dec ls primary
             (Resolved (Response True (Some data)))))) = data \<and>
         error (commit st (fst (fetchRestaurants dec ls primary
             (Resolved (Response True (Some data)))))) = None \<and>
         fetchRestaurants dec ls primary (Resolved (Response True (Some data))) =
           fetchRestaurants dec' ls' primary (Resolved (Response True (Some data)))"
  using assms by (simp add: fetchRestaurants_def commit_simps try_get_def)

theorem refresh_adopts_fallback_payload_witness:
  "try_get Rejected = None \<and>
   restaurants (commit initial_state (fst (fetchRestaurants (\<lambda>t. None)
       [storage_key \<mapsto> js ''[]''] Rejected
       (Resolved (Response True (Some [demo_restaurant (js ''A'') [euro] 1])))))) =
     [demo_restaurant (js ''A'') [euro] 1] \<and>
   error (commit initial_state (fst (fetchRestaurants (\<lambda>t. None)
       [storage_key \<mapsto> js ''[]''] Rejected
       (Resolved (Response True (Some [demo_restaurant (js ''A'') [euro] 1])))))) = None"
proof -
  have p: "try_get Rejected = None" by (simp add: try_get_def)
  show ?thesis
    using p refresh_adopts_fallback_payload [OF p, where st = initial_state
        and dec = "\<lambda>t. None" and ls = "[storage_key \<mapsto> js ''[]'']"
        and data = "[demo_restaurant (js ''A'') [euro] 1]"]
    by simp
qed

text \<open>
  C8. When the POST fails (the request is rejected, or the response is not ok), the
  handler makes exactly one setter call, the submission failure message: the collection
  in memory is unchanged and no refresh runs.
\<close>

theorem failed_post_sets_error_only:
  assumes "post (restaurantData d uuid now) = Rejected \<or>
           (\<exists>response. post (restaurantData d uuid now) = Resolved response \<and> \<not> ok response)"
  shows "handleAddRestaurant dec ls post primary fallback d uuid now =
           [SetError (Some add_failed_msg)] \<and>
         error (commit st (handleAddRestaurant dec ls post primary fallback d uuid now)) =
           Some (js ''Failed to add restaurant. Please try again.'') \<and>
         restaurants (commit st (handleAddRestaurant dec ls post primary fallback d uuid now)) =
           restaurants st"
  using assms by (auto simp: handleAddRestaurant_def commit_simps add_failed_msg_def)

theorem failed_post_sets_error_only_witness:
  "server_refuses (restaurantData demo_draft (js ''u1'') 7) = Resolved (Response False None) \<and>
   \<not> ok (Response False (None :: unit option)) \<and>
   handleAddRestaurant (\<lambda>t. None) Map.empty server_refuses
       (Resolved (Response True (Some []))) Rejected demo_draft (js ''u1'') 7 =
     [SetError (Some add_failed_msg)] \<and>
   restaurants (commit (initial_state\<lparr>restaurants := [demo_restaurant (js ''A'') [euro] 1]\<rparr>)
     (handleAddRestaurant (\<lambda>t. None) Map.empty server_refuses
       (Resolved (Response True (Some []))) Rejected demo_draft (js ''u1'') 7)) =
     [demo_restaurant (js ''A'') [euro] 1] \<and>
   error (commit (initial_state\<lparr>restaurants := [demo_restaurant (js ''A'') [euro] 1]\<rparr>)
     (handleAddRestaurant (\<lambda>t. None) Map.empty server_refuses
       (Resolved (Response True (Some []))) Rejected demo_draft (js ''u1'') 7)) =
     Some (js ''Failed to add restaurant. Please try again.'')"
proof -
  have r: "server_refuses (restaurantData demo_draft (js ''u1'') 7) =
      Resolved (Response False None)"
    by (simp add: server_refuses_def)
  then have h: "server_refuses (restaurantData demo_draft (js ''u1'') 7) = Rejected \<or>
     (\<exists>response. server_refuses (restaurantData demo_draft (js ''u1'') 7) = Resolved response \<and>
        \<not> ok response)"
    by simp
  show ?thesis
    using r failed_post_sets_error_only [where post = server_refuses and d = demo_draft
          and uuid = "js ''u1''" and now = 7 and dec = "\<lambda>t. None" and ls = Map.empty
          and primary = "Resolved (Response True (Some []))" and fallback = Rejected
          and st = "initial_state\<lparr>restaurants := [demo_restaurant (js ''A'') [euro] 1]\<rparr>",
          OF h]
    by (simp add: commit_simps add_failed_msg_def)
qed

lemma msgs_distinct: "add_failed_msg \<noteq> load_failed_msg"
  by (simp add: add_failed_msg_def load_failed_msg_def js_def)

text \<open>
  C10. When the POST succeeds and the refresh it triggers returns, the error slot is
  cleared afterwards, also when that refresh failed on all three sources and had set the
  retrieval failure message. In no case does the retrieval failure message survive the
  submission (a refresh that throws leaves the submission failure message).
\<close>

theorem successful_post_clears_error:
  assumes "post (restaurantData d uuid now) = Resolved response" and "ok response"
  shows "(snd (fetchRestaurants dec ls primary fallback) = Returned \<longrightarrow>
            error (commit st (handleAddRestaurant dec ls post primary fallback d uuid now)) = None) \<and>
         error (commit st (handleAddRestaurant dec ls post primary fallback d uuid now)) \<noteq>
            Some load_failed_msg \<and>
         (try_get primary = None \<and> try_get fallback = None \<and> getItem ls storage_key = None \<longrightarrow>
            error (commit st (fst (fetchRestaurants dec ls primary fallback))) = Some load_failed_msg \<and>
            error (commit st (handleAddRestaurant dec ls post primary fallback d uuid now)) = None)"
proof -
  let ?h = "handleAddRestaurant dec ls post primary fallback d uuid now"
  let ?f = "fetchRestaurants dec ls primary fallback"
  have ret: "?h = fst ?f @ [SetError None]" if "snd ?f = Returned"
    using that assms by (cases ?f) (simp add: handleAddRestaurant_def)
  have thr: "?h = fst ?f @ [SetError (Some add_failed_msg)]" if "snd ?f = Threw"
    using that assms by (cases ?f) (simp add: handleAddRestaurant_def)
  have a: "error (commit st ?h) = None" if "snd ?f = Returned"
    using ret [OF that] by (simp add: commit_simps)
  have b: "error (commit st ?h) \<noteq> Some load_failed_msg"
  proof (cases "snd ?f")
    case Returned
    then show ?thesis using a by simp
  next
    case Threw
    then show ?thesis using thr msgs_distinct by (simp add: commit_simps)
  qed
  have c: "error (commit st (fst ?f)) = Some load_failed_msg \<and> error (commit st ?h) = None"
    if "try_get primary = None" "try_get fallback = None" "getItem ls storage_key = None"
  proof -
    have "?f = ([SetIsLoading True, SetError (Some load_failed_msg), SetIsLoading False], Returned)"
      using that by (simp add: fetchRestaurants_def)
    then show ?thesis using a by (simp add: commit_simps)
  qed
  show ?thesis using a b c by blast
qed

theorem successful_post_clears_error_witness:
  "server_accepts (restaurantData demo_draft (js ''u1'') 7) = Resolved (Response True None) \<and>
   ok (Response True (None :: unit option)) \<and>
   error (commit initial_state (fst (fetchRestaurants (\<lambda>t. None) Map.empty Rejected Rejected))) =
      Some load_failed_msg \<and>
   error (commit initial_state (handleAddRestaurant (\<lambda>t. None) Map.empty
      server_accepts Rejected Rejected demo_draft (js ''u1'') 7)) = None"
proof -
  have h: "server_accepts (restaurantData demo_draft (js ''u1'') 7) =
      Resolved (Response True None)"
    by (simp add: server_accepts_def)
  have k: "ok (Response True (None :: unit option))" by simp
  have p: "try_get Rejected = None" by (simp add: try_get_def)
  have g: "getItem Map.empty storage_key = None" by (simp add: getItem_def)
  show ?thesis
    using h k p g successful_post_clears_error [where post = server_accepts and d = demo_draft
          and uuid = "js ''u1''" and now = 7 and dec = "\<lambda>t. None" and ls = Map.empty
          and primary = Rejected and fallback = Rejected and st = initial_state, OF h k]
    by simp
qed


section \<open>Sessions\<close>

lemma getItem_setItem: "getItem (setItem ls k v) k = Some v"
  by (simp add: getItem_def setItem_def)

lemma stringify_empty: "JSON_stringify enc [] = js ''[]''"
  by (simp add: JSON_stringify_def)

lemma parse_brackets: "JSON_parse dec (js ''[]'') = Some []"
  by (simp add: JSON_parse_def)

lemma mount_slot: "getItem (snd (mount enc ls)) storage_key = Some (js ''[]'')"
  by (simp add: mount_def persist_effect_def getItem_setItem stringify_empty initial_state_def)

lemma mount_state: "fst (mount enc ls) = initial_state"
  by (simp add: mount_def)

lemma commit_keeps_restaurants:
  "\<not> list_ex sets_restaurants us \<Longrightarrow> restaurants (commit st us) = restaurants st"
proof (induction us arbitrary: st)
  case Nil
  show ?case by (simp add: commit_Nil)
next
  case (Cons u us)
  then show ?case by (cases u) (simp_all add: commit_Cons)
qed

lemma render_in_sync: "slot_in_sync enc cfg \<Longrightarrow> slot_in_sync enc (render enc us cfg)"
  by (simp add: slot_in_sync_def render_def Let_def persist_effect_def getItem_setItem
      commit_keeps_restaurants)

lemma mount_in_sync: "slot_in_sync enc (mount enc ls)"
  by (simp add: slot_in_sync_def mount_slot mount_state stringify_empty initial_state_def)

lemma submits_in_sync:
  "slot_in_sync enc cfg \<Longrightarrow> slot_in_sync enc (foldl (submit enc dec) cfg subs)"
  by (induction subs arbitrary: cfg) (simp_all add: submit_def render_in_sync)

lemma session_in_sync: "slot_in_sync enc (session enc dec ls primary fallback subs)"
  by (simp add: session_def app_start_def Let_def submits_in_sync render_in_sync mount_in_sync)

lemma fetchRestaurants_reads_slot_only:
  "getItem ls storage_key = getItem ls' storage_key \<Longrightarrow>
   fetchRestaurants dec ls primary fallback = fetchRestaurants dec ls' primary fallback"
  by (simp add: fetchRestaurants_def cong: option.case_cong)

lemma handleAddRestaurant_reads_slot_only:
  assumes "getItem ls storage_key = getItem ls' storage_key"
  shows "handleAddRestaurant dec ls post primary fallback d uuid now =
         handleAddRestaurant dec ls' post primary fallback d uuid now"
  unfolding handleAddRestaurant_def fetchRestaurants_reads_slot_only [OF assms] ..

lemma render_same_view: "same_view cfg cfg' \<Longrightarrow> same_view (render enc us cfg) (render enc us cfg')"
  by (simp add: same_view_def render_def Let_def persist_effect_def getItem_setItem)

lemma mount_same_view: "same_view (mount enc ls) (mount enc ls')"
  by (simp add: same_view_def mount_slot mount_state)

lemma submit_same_view:
  "same_view cfg cfg' \<Longrightarrow> same_view (submit enc dec cfg s) (submit enc dec cfg' s)"
proof -
  assume v: "same_view cfg cfg'"
  then have "getItem (snd cfg) storage_key = getItem (snd cfg') storage_key"
    by (simp add: same_view_def)
  then have "handleAddRestaurant dec (snd cfg) (sub_post s) (sub_primary s) (sub_fallback s)
                (sub_draft s) (sub_uuid s) (sub_now s) =
             handleAddRestaurant dec (snd cfg') (sub_post s) (sub_primary s) (sub_fallback s)
                (sub_draft s) (sub_uuid s) (sub_now s)"
    by (rule handleAddRestaurant_reads_slot_only)
  with v show ?thesis by (simp add: submit_def render_same_view)
qed

lemma submits_same_view:
  "same_view cfg cfg' \<Longrightarrow>
   same_view (foldl (submit enc dec) cfg subs) (foldl (submit enc dec) cfg' subs)"
  by (induction subs arbitrary: cfg cfg') (simp_all add: submit_same_view)

lemma app_start_same_view:
  "same_view (app_start enc dec ls primary fallback) (app_start enc dec ls' primary fallback)"
proof -
  have "getItem (snd (mount enc ls)) storage_key = getItem (snd (mount enc ls')) storage_key"
    by (simp add: mount_slot)
  then have "fetchRestaurants dec (snd (mount enc ls)) primary fallback =
             fetchRestaurants dec (snd (mount enc ls')) primary fallback"
    by (rule fetchRestaurants_reads_slot_only)
  then show ?thesis
    by (simp add: app_start_def Let_def render_same_view mount_same_view)
qed

lemma session_same_view:
  "same_view (session enc dec ls primary fallback subs) (session enc dec ls' primary fallback subs)"
  by (simp add: session_def submits_same_view app_start_same_view)

lemma app_start_network_down:
  assumes "try_get primary = None" and "try_get fallback = None"
  shows "fst (app_start enc dec ls primary fallback) = initial_state\<lparr>isLoading := False\<rparr>"
proof -
  have "fetchRestaurants dec (snd (mount enc ls)) primary fallback =
      ([SetIsLoading True, SetError (Some load_failed_msg), SetRestaurants [], SetError None,
        SetIsLoading False], Returned)"
    using assms by (simp add: fetchRestaurants_def mount_slot js_brackets_nonempty parse_brackets)
  then show ?thesis
    by (simp add: app_start_def Let_def render_def mount_state commit_simps initial_state_def)
qed

text \<open>
  C9. Mounting overwrites the storage slot with the text of the empty collection,
  whatever an earlier session left there, before the first request can resolve. So the
  state of a session does not depend on the storage it started from, the slot always
  holds the text of the collection in memory, and a start with both requests failing
  recovers the empty collection (with the error cleared), never an earlier snapshot.
\<close>

theorem persist_on_start_overwrites_cache:
  "getItem (snd (mount enc ls)) storage_key = Some (JSON_stringify enc []) \<and>
   fst (session enc dec ls primary fallback subs) =
     fst (session enc dec ls' primary fallback subs) \<and>
   getItem (snd (session enc dec ls primary fallback subs)) storage_key =
     Some (JSON_stringify enc (restaurants (fst (session enc dec ls primary fallback subs)))) \<and>
   (try_get primary = None \<and> try_get fallback = None \<longrightarrow>
      restaurants (fst (app_start enc dec ls primary fallback)) = [] \<and>
      error (fst (app_start enc dec ls primary fallback)) = None)"
proof -
  have a: "getItem (snd (mount enc ls)) storage_key = Some (JSON_stringify enc [])"
    by (simp add: mount_slot stringify_empty)
  have b: "fst (session enc dec ls primary fallback subs) =
     fst (session enc dec ls' primary fallback subs)"
    using session_same_view [of enc dec ls primary fallback subs ls'] by (simp add: same_view_def)
  have c: "getItem (snd (session enc dec ls primary fallback subs)) storage_key =
     Some (JSON_stringify enc (restaurants (fst (session enc dec ls primary fallback subs))))"
    using session_in_sync [of enc dec ls primary fallback subs] by (simp add: slot_in_sync_def)
  have d: "restaurants (fst (app_start enc dec ls primary fallback)) = [] \<and>
      error (fst (app_start enc dec ls primary fallback)) = None"
    if "try_get primary = None" "try_get fallback = None"
    using app_start_network_down [OF that] by (simp add: initial_state_def)
  show ?thesis using a b c d by blast
qed

theorem persist_on_start_overwrites_cache_witness:
  "try_get Rejected = None \<and>
   getItem old_snapshot storage_key = Some (js ''[{...}]'') \<and>
   JSON_parse old_parser (js ''[{...}]'') = Some [demo_restaurant (js ''A'') [euro] 1] \<and>
   getItem (snd (mount (\<lambda>xs. js ''[{...}]'') old_snapshot)) storage_key = Some (js ''[]'') \<and>
   restaurants (fst (app_start (\<lambda>xs. js ''[{...}]'') old_parser old_snapshot Rejected Rejected)) = [] \<and>
   error (fst (app_start (\<lambda>xs. js ''[{...}]'') old_parser old_snapshot Rejected Rejected)) = None"
proof -
  have p: "try_get Rejected = None" by (simp add: try_get_def)
  have g: "getItem old_snapshot storage_key = Some (js ''[{...}]'')"
    by (simp add: old_snapshot_def getItem_def)
  have j: "JSON_parse old_parser (js ''[{...}]'') = Some [demo_restaurant (js ''A'') [euro] 1]"
    by (simp add: JSON_parse_def old_parser_def js_def)
  show ?thesis
    using p g j persist_on_start_overwrites_cache [where enc = "\<lambda>xs. js ''[{...}]''"
        and dec = old_parser and ls = old_snapshot and primary = Rejected and fallback = Rejected
        and subs = "[]" and ls' = Map.empty]
    by (simp add: stringify_empty)
qed

end
